theory Spec2Isabelle
  imports Main "HOL-Library.Sublist"
begin

section \<open>Strings\<close>

text \<open>
  A source string is a \<^typ>\<open>string\<close>: one \<^typ>\<open>char\<close> per code unit, for text in the
  range 0..255. The string operations of the host language that \<open>platform.ts\<close> calls are
  written out below with the results the language gives them.
\<close>

definition unknown :: string where
  "unknown = ''unknown''"

text \<open>\<open>s.startsWith(p)\<close> and \<open>s.endsWith(p)\<close>.\<close>

definition startsWith :: "string \<Rightarrow> string \<Rightarrow> bool" where
  "startsWith s p = prefix p s"

definition endsWith :: "string \<Rightarrow> string \<Rightarrow> bool" where
  "endsWith s p = suffix p s"

text \<open>
  \<open>s.substring(a, b)\<close>: both indices are clamped to \<open>0..length\<close> and swapped when
  \<open>a > b\<close>; \<open>s.substring(a)\<close> runs to the end of the string.
\<close>

definition substring :: "string \<Rightarrow> int \<Rightarrow> int \<Rightarrow> string" where
  "substring s a b =
     (let n = int (length s);
          a' = min (max a 0) n;
          b' = min (max b 0) n;
          lo = min a' b';
          hi = max a' b'
      in take (nat (hi - lo)) (drop (nat lo) s))"

definition substringFrom :: "string \<Rightarrow> int \<Rightarrow> string" where
  "substringFrom s a = substring s a (int (length s))"

text \<open>\<open>s.indexOf(c)\<close>: the index of the first occurrence, \<open>-1\<close> when there is none.\<close>

fun indexOf :: "string \<Rightarrow> char \<Rightarrow> int" where
  "indexOf [] c = - 1"
| "indexOf (x # xs) c =
     (if x = c then 0
      else (let i = indexOf xs c in if i < 0 then - 1 else i + 1))"

text \<open>
  \<open>s.trim()\<close> removes white space and line terminators from both ends. In the range
  0..255 these are tab, line feed, vertical tab, form feed, carriage return, space and
  the no-break space.
\<close>

definition isWhiteSpace :: "char \<Rightarrow> bool" where
  "isWhiteSpace c =
     (c = CHR 0x09 \<or> c = CHR 0x0A \<or> c = CHR 0x0B \<or> c = CHR 0x0C \<or> c = CHR 0x0D
      \<or> c = CHR 0x20 \<or> c = CHR 0xA0)"

definition trim :: "string \<Rightarrow> string" where
  "trim s = rev (dropWhile isWhiteSpace (rev (dropWhile isWhiteSpace s)))"

text \<open>
  \<open>s.split(sep)\<close>. With a non-empty separator the string is cut at every occurrence of
  it, found from left to right without overlap, and the empty string gives one empty
  piece. With the empty separator the string is cut into its code units, and the empty
  string gives no piece at all.
\<close>

function splitFrom :: "string \<Rightarrow> string \<Rightarrow> string \<Rightarrow> string list" where
  "splitFrom sep cur [] = [cur]"
| "splitFrom sep cur (c # cs) =
     (if sep \<noteq> [] \<and> startsWith (c # cs) sep
      then cur # splitFrom sep [] (drop (length sep) (c # cs))
      else splitFrom sep (cur @ [c]) cs)"
  by pat_completeness auto
termination
  by (relation "measure (\<lambda>(sep, cur, s). length s)") auto

definition split_str :: "string \<Rightarrow> string \<Rightarrow> string list" where
  "split_str s sep = (if sep = [] then map (\<lambda>c. [c]) s else splitFrom sep [] s)"

section \<open>LinuxDistribution\<close>

text \<open>
  The class \<open>LinuxDistribution\<close>. The optional field \<open>idLike\<close> is \<open>None\<close> when it is
  \<open>null\<close> or was never given.
\<close>

record LinuxDistribution =
  name :: string
  version :: string
  idLike :: "string list option"

text \<open>Lines 63 to 66: the double quotes around a value are removed.\<close>

definition stripQuotes :: "string \<Rightarrow> string" where
  "stripQuotes v =
     (if length v > 1 \<and> startsWith v [CHR 0x22] \<and> endsWith v [CHR 0x22]
      then substring v 1 (int (length v) - 1)
      else v)"

text \<open>Lines 68 to 76: the three keys, and the test of line 78.\<close>

definition assignKey :: "string \<Rightarrow> string \<Rightarrow> LinuxDistribution \<Rightarrow> LinuxDistribution" where
  "assignKey k v st =
     (if k = ''ID'' then st\<lparr>name := v\<rparr>
      else if k = ''VERSION_ID'' then st\<lparr>version := v\<rparr>
      else if k = ''ID_LIKE'' then st\<lparr>idLike := Some (split_str v '' '')\<rparr>
      else st)"

definition allAssigned :: "LinuxDistribution \<Rightarrow> bool" where
  "allAssigned st = (name st \<noteq> unknown \<and> version st \<noteq> unknown \<and> idLike st \<noteq> None)"

text \<open>
  The body of the loop of \<open>FromReleaseInfo\<close> for one line. The three locals \<open>name\<close>,
  \<open>version\<close> and \<open>idLike\<close> are carried in a \<^typ>\<open>LinuxDistribution\<close>, which is what the
  function builds from them at the end. The result says whether the loop goes on
  (\<open>False\<close> is the \<open>break\<close>).
\<close>

definition scanLine :: "string \<Rightarrow> LinuxDistribution \<Rightarrow> LinuxDistribution \<times> bool" where
  "scanLine l st =
     (let line = trim l;
          equalsIndex = indexOf line CHR ''=''
      in if equalsIndex \<ge> 0 then
           (let k = substring line 0 equalsIndex;
                v = stripQuotes (substringFrom line (equalsIndex + 1));
                st' = assignKey k v st
            in (st', \<not> allAssigned st'))
         else (st, True))"

fun scanLines :: "string list \<Rightarrow> LinuxDistribution \<Rightarrow> LinuxDistribution" where
  "scanLines [] st = st"
| "scanLines (l # ls) st =
     (case scanLine l st of (st', continue) \<Rightarrow> if continue then scanLines ls st' else st')"

definition FromLines :: "string list \<Rightarrow> LinuxDistribution" where
  "FromLines ls = scanLines ls \<lparr>name = unknown, version = unknown, idLike = None\<rparr>"

definition FromReleaseInfo :: "string \<Rightarrow> string \<Rightarrow> LinuxDistribution" where
  "FromReleaseInfo releaseInfo eol = FromLines (split_str releaseInfo eol)"

section \<open>Runtime ids\<close>

text \<open>The constants of the class \<open>LinuxRuntimeId\<close>.\<close>

definition unknown_distribution :: string where
  "unknown_distribution = ''unknown_distribution''"
definition unknown_version :: string where
  "unknown_version = ''unknown_version''"
definition centos_7 :: string where
  "centos_7 = ''centos.7-x64''"
definition debian_8 :: string where
  "debian_8 = ''debian.8-x64''"
definition fedora_23 :: string where
  "fedora_23 = ''fedora.23-x64''"
definition fedora_24 :: string where
  "fedora_24 = ''fedora.24-x64''"
definition opensuse_13_2 :: string where
  "opensuse_13_2 = ''opensuse.13.2-x64''"
definition opensuse_42_1 :: string where
  "opensuse_42_1 = ''opensuse.42.1-x64''"
definition rhel_7 :: string where
  "rhel_7 = ''rhel.7-x64''"
definition ubuntu_14_04 :: string where
  "ubuntu_14_04 = ''ubuntu.14.04-x64''"
definition ubuntu_16_04 :: string where
  "ubuntu_16_04 = ''ubuntu.16.04-x64''"
definition ubuntu_16_10 :: string where
  "ubuntu_16_10 = ''ubuntu.16.10-x64''"

lemmas LinuxRuntimeId_defs =
  unknown_distribution_def unknown_version_def centos_7_def debian_8_def fedora_23_def
  fedora_24_def opensuse_13_2_def opensuse_42_1_def rhel_7_def ubuntu_14_04_def
  ubuntu_16_04_def ubuntu_16_10_def

text \<open>
  \<open>getExactRuntimeId\<close>: a \<open>switch\<close> over the distribution name. A case that ends in
  \<open>break\<close> leaves the switch and returns \<open>unknown_version\<close>.
\<close>

definition getExactRuntimeId :: "string \<Rightarrow> string \<Rightarrow> string" where
  "getExactRuntimeId distributionName distributionVersion =
     (if distributionName = ''ubuntu'' then
        (if distributionVersion = ''14.04'' then ubuntu_14_04
         else if distributionVersion = ''16.04'' then ubuntu_16_04
         else if distributionVersion = ''16.10'' then ubuntu_16_10
         else unknown_version)
      else if distributionName = ''linuxmint'' then
        (if startsWith distributionVersion ''18'' then ubuntu_16_04
         else unknown_version)
      else if distributionName = ''centos'' \<or> distributionName = ''ol'' then centos_7
      else if distributionName = ''fedora'' then
        (if distributionVersion = ''23'' then fedora_23
         else if distributionVersion = ''24'' then fedora_24
         else unknown_version)
      else if distributionName = ''opensuse'' then
        (if startsWith distributionVersion ''13.'' then opensuse_13_2
         else if startsWith distributionVersion ''42.'' then opensuse_42_1
         else unknown_version)
      else if distributionName = ''rhel'' then rhel_7
      else if distributionName = ''debian'' then debian_8
      else unknown_distribution)"

text \<open>\<open>getRuntimeIdHelper\<close>: the exact lookup first, then the derivative distributions.\<close>

definition getRuntimeIdHelper :: "string \<Rightarrow> string \<Rightarrow> string" where
  "getRuntimeIdHelper distributionName distributionVersion =
     (let runtimeId = getExactRuntimeId distributionName distributionVersion
      in if runtimeId \<noteq> unknown_distribution then runtimeId
         else if distributionName = ''Zorin OS'' \<or> distributionName = ''zorin'' then
           (if distributionVersion = ''12'' then ubuntu_16_04
            else unknown_version)
         else if distributionName = ''elementary'' \<or> distributionName = ''elementary OS'' then
           (if startsWith distributionVersion ''0.3'' then ubuntu_14_04
            else if startsWith distributionVersion ''0.4'' then ubuntu_16_04
            else unknown_version)
         else if distributionName = ''galliumos'' then
           (if startsWith distributionVersion ''2.0'' \<or> startsWith distributionVersion ''2.1''
            then ubuntu_16_04
            else unknown_version)
         else unknown_distribution)"

section \<open>PlatformInformation\<close>

text \<open>
  Every \<open>throw\<close> of \<open>getRuntimeId\<close> is a value of \<open>error\<close>, with the values its message is
  built from. \<open>TypeError\<close> is what reading \<open>name\<close> or \<open>version\<close> of a \<open>null\<close>
  distribution raises, and \<open>FallbackError\<close> stands for anything the caller's fallback
  object raises.
\<close>

datatype error =
    UnsupportedWindowsArchitecture "string option"
  | UnsupportedMacOSArchitecture "string option"
  | UnsupportedLinuxDistro string string "string option"
  | UnsupportedPlatform string
  | TypeError
  | FallbackError

text \<open>
  The interface \<open>ILinuxRuntimeIdFallback\<close>. \<open>getRuntimeId\<close> calls its one method at most
  once, so an object of the interface is given by what that call does: it raises
  (\<open>Inl\<close>), or returns \<open>null\<close> or \<open>undefined\<close> (\<open>Inr None\<close>), or returns a string.
\<close>

datatype ILinuxRuntimeIdFallback =
  Fallback (getFallbackLinuxRuntimeId: "error + string option")

text \<open>Lines 224 to 230: the caller's fallback value replaces a sentinel when it is truthy.\<close>

definition applyFallback :: "string \<Rightarrow> ILinuxRuntimeIdFallback option \<Rightarrow> error + string" where
  "applyFallback runtimeId linuxFallbackRuntimeId =
     (case linuxFallbackRuntimeId of
        None \<Rightarrow> Inr runtimeId
      | Some fb \<Rightarrow>
          if runtimeId = unknown_distribution \<or> runtimeId = unknown_version then
            (case getFallbackLinuxRuntimeId fb of
               Inl e \<Rightarrow> Inl e
             | Inr None \<Rightarrow> Inr runtimeId
             | Inr (Some fallbackRuntimeValue) \<Rightarrow>
                 if fallbackRuntimeValue \<noteq> [] then Inr fallbackRuntimeValue
                 else Inr runtimeId)
          else Inr runtimeId)"

text \<open>Lines 242 to 247: the loop over \<open>idLike\<close>, with its \<open>break\<close>.\<close>

fun idLikeLoop :: "string list \<Rightarrow> string \<Rightarrow> string \<Rightarrow> string" where
  "idLikeLoop [] distributionVersion runtimeId = runtimeId"
| "idLikeLoop (i # ids) distributionVersion runtimeId =
     (let runtimeId' = getRuntimeIdHelper i distributionVersion
      in if runtimeId' \<noteq> unknown_distribution then runtimeId'
         else idLikeLoop ids distributionVersion runtimeId')"

text \<open>
  Lines 221 to 248: the value of the local \<open>runtimeId\<close> when the final test is reached.
\<close>

definition linuxRuntimeId ::
  "LinuxDistribution \<Rightarrow> ILinuxRuntimeIdFallback option \<Rightarrow> error + string" where
  "linuxRuntimeId d linuxFallbackRuntimeId =
     (case applyFallback (getExactRuntimeId (name d) (version d)) linuxFallbackRuntimeId of
        Inl e \<Rightarrow> Inl e
      | Inr r1 \<Rightarrow>
          (let r2 = (if r1 = unknown_distribution
                     then getRuntimeIdHelper (name d) (version d) else r1);
               r3 = (if r2 = unknown_distribution
                     then (case idLike d of
                             None \<Rightarrow> r2
                           | Some ids \<Rightarrow>
                               if length ids > 0 then idLikeLoop ids (version d) r2 else r2)
                     else r2)
           in Inr r3))"

text \<open>
  \<open>getRuntimeId\<close>. The architecture is \<open>None\<close> when it is \<open>null\<close> (as
  \<open>GetUnixArchitecture\<close> returns it for an empty output) and the distribution is \<open>None\<close>
  when it is \<open>null\<close>. On the \<open>linux\<close> case both ways out of it read \<open>distribution.name\<close>,
  which raises for \<open>null\<close>.
\<close>

definition getRuntimeId ::
  "string \<Rightarrow> string option \<Rightarrow> LinuxDistribution option \<Rightarrow> ILinuxRuntimeIdFallback option
     \<Rightarrow> error + string" where
  "getRuntimeId platform architecture distribution linuxFallbackRuntimeId =
     (if platform = ''win32'' then
        (if architecture = Some ''x86'' then Inr ''win7-x86''
         else if architecture = Some ''x86_64'' then Inr ''win7-x64''
         else Inl (UnsupportedWindowsArchitecture architecture))
      else if platform = ''darwin'' then
        (if architecture = Some ''x86_64'' then Inr ''osx.10.11-x64''
         else Inl (UnsupportedMacOSArchitecture architecture))
      else if platform = ''linux'' then
        (case distribution of
           None \<Rightarrow> Inl TypeError
         | Some d \<Rightarrow>
             if architecture = Some ''x86_64'' then
               (case linuxRuntimeId d linuxFallbackRuntimeId of
                  Inl e \<Rightarrow> Inl e
                | Inr runtimeId \<Rightarrow>
                    if runtimeId \<noteq> unknown_distribution \<and> runtimeId \<noteq> unknown_version
                    then Inr runtimeId
                    else Inl (UnsupportedLinuxDistro (name d) (version d) architecture))
             else Inl (UnsupportedLinuxDistro (name d) (version d) architecture))
      else Inl (UnsupportedPlatform platform))"

text \<open>
  The class \<open>PlatformInformation\<close> and its constructor, whose body is one \<open>try\<close> with a
  \<open>catch\<close> that stores \<open>null\<close>.
\<close>

record PlatformInformation =
  platform :: string
  architecture :: "string option"
  distribution :: "LinuxDistribution option"
  runtimeId :: "string option"

definition try_catch :: "error + 'a \<Rightarrow> (error \<Rightarrow> error + 'a) \<Rightarrow> error + 'a" where
  "try_catch body handler = (case body of Inl err \<Rightarrow> handler err | Inr x \<Rightarrow> Inr x)"

definition newPlatformInformation ::
  "string \<Rightarrow> string option \<Rightarrow> LinuxDistribution option \<Rightarrow> ILinuxRuntimeIdFallback option
     \<Rightarrow> error + PlatformInformation" where
  "newPlatformInformation p a d linuxFallbackRuntimeId =
     (case try_catch
             (map_sum id Some (getRuntimeId p a d linuxFallbackRuntimeId))
             (\<lambda>err. Inr None) of
        Inl e \<Rightarrow> Inl e
      | Inr rid \<Rightarrow>
          Inr \<lparr>platform = p, architecture = a, distribution = d, runtimeId = rid\<rparr>)"

section \<open>Facts about the release-info parser\<close>

lemma indexOf_ge: "- 1 \<le> indexOf s c"
  by (induction s) (auto simp: Let_def)

lemma indexOf_absent: "c \<notin> set s \<Longrightarrow> indexOf s c = - 1"
  by (induction s) (auto simp: Let_def)

lemma indexOf_present:
  "c \<in> set s \<Longrightarrow> indexOf s c = int (length (takeWhile (\<lambda>x. x \<noteq> c) s))"
  by (induction s) (auto simp: Let_def)

lemma indexOf_nonneg_iff: "0 \<le> indexOf s c \<longleftrightarrow> c \<in> set s"
  using indexOf_absent [of c s] indexOf_present [of c s] by (cases "c \<in> set s") auto

lemma set_dropWhile_keep:
  "\<not> P c \<Longrightarrow> c \<in> set (dropWhile P xs) \<longleftrightarrow> c \<in> set xs"
  by (induction xs) auto

lemma set_trim_keep: "\<not> isWhiteSpace c \<Longrightarrow> c \<in> set (trim s) \<longleftrightarrow> c \<in> set s"
  by (simp add: trim_def set_dropWhile_keep)

lemma equals_not_white: "\<not> isWhiteSpace CHR ''=''"
  by (simp add: isWhiteSpace_def)

lemma substring_nat:
  assumes "a \<le> b" and "b \<le> length s"
  shows "substring s (int a) (int b) = take (b - a) (drop a s)"
proof -
  have "min (max (int a) 0) (int (length s)) = int a"
    and "min (max (int b) 0) (int (length s)) = int b"
    using assms by simp_all
  moreover have "min (int a) (int b) = int a" and "max (int a) (int b) = int b"
    using assms by simp_all
  moreover have "nat (int b - int a) = b - a"
    by simp
  ultimately show ?thesis
    by (simp add: substring_def Let_def)
qed

lemma substringFrom_nat:
  assumes "a \<le> length s"
  shows "substringFrom s (int a) = drop a s"
  using substring_nat [OF assms order_refl] by (simp add: substringFrom_def)

lemma substring_prefix:
  "substring s 0 (int (length (takeWhile P s))) = takeWhile P s"
proof -
  have "substring s (int 0) (int (length (takeWhile P s)))
          = take (length (takeWhile P s) - 0) (drop 0 s)"
    by (rule substring_nat) (simp_all add: length_takeWhile_le)
  then show ?thesis
    by (simp add: takeWhile_eq_take [symmetric])
qed

lemma substringFrom_rest:
  assumes "c \<in> set s"
  shows "substringFrom s (int (length (takeWhile (\<lambda>x. x \<noteq> c) s)) + 1)
           = tl (dropWhile (\<lambda>x. x \<noteq> c) s)"
proof -
  let ?k = "takeWhile (\<lambda>x. x \<noteq> c) s"
  have lt: "length ?k < length s"
    using assms by (induction s) auto
  have e: "int (length ?k) + 1 = int (Suc (length ?k))"
    by simp
  have "substringFrom s (int (length ?k) + 1) = drop (Suc (length ?k)) s"
    unfolding e using lt by (intro substringFrom_nat) simp
  also have "\<dots> = tl (drop (length ?k) s)"
    by (simp add: drop_Suc tl_drop)
  also have "drop (length ?k) s = dropWhile (\<lambda>x. x \<noteq> c) s"
    by (rule dropWhile_eq_drop [symmetric])
  finally show ?thesis .
qed

lemma scanLine_no_equals: "CHR ''='' \<notin> set l \<Longrightarrow> scanLine l st = (st, True)"
  using indexOf_nonneg_iff [of "trim l" "CHR ''=''"] set_trim_keep [OF equals_not_white, of l]
  by (simp add: scanLine_def Let_def)

lemma scanLine_equals:
  assumes "CHR ''='' \<in> set l"
  shows "scanLine l st =
     (let line = trim l;
          k = takeWhile (\<lambda>c. c \<noteq> CHR ''='') line;
          v = stripQuotes (tl (dropWhile (\<lambda>c. c \<noteq> CHR ''='') line));
          st' = assignKey k v st
      in (st', \<not> allAssigned st'))"
proof -
  have m: "CHR ''='' \<in> set (trim l)"
    using assms set_trim_keep [OF equals_not_white, of l] by simp
  then have i: "indexOf (trim l) CHR ''=''
                  = int (length (takeWhile (\<lambda>x. x \<noteq> CHR ''='') (trim l)))"
    by (rule indexOf_present)
  show ?thesis
    unfolding scanLine_def Let_def i
    by (simp add: substring_prefix substringFrom_rest [OF m])
qed

lemma scanLines_filter:
  "scanLines (filter (\<lambda>l. CHR ''='' \<in> set l) ls) st = scanLines ls st"
  by (induction ls arbitrary: st) (simp_all add: scanLine_no_equals split: prod.splits)


lemma stripQuotes_quoted: "stripQuotes (CHR 0x22 # m @ [CHR 0x22]) = m"
proof -
  let ?v = "CHR 0x22 # m @ [CHR 0x22]"
  have c: "1 < length ?v \<and> startsWith ?v [CHR 0x22] \<and> endsWith ?v [CHR 0x22]"
    by (simp add: startsWith_def endsWith_def suffix_def)
  have "int (length ?v) - 1 = int (Suc (length m))"
    by simp
  moreover have "substring ?v (int 1) (int (Suc (length m)))
                   = take (Suc (length m) - 1) (drop 1 ?v)"
    by (rule substring_nat) simp_all
  ultimately have s: "substring ?v 1 (int (length ?v) - 1) = m"
    by simp
  show ?thesis
    unfolding stripQuotes_def using c s by (simp only: if_True simp_thms)
qed

lemma quoted_shape:
  assumes "1 < length v" and "startsWith v [CHR 0x22]" and "endsWith v [CHR 0x22]"
  shows "\<exists>m. v = CHR 0x22 # m @ [CHR 0x22]"
proof -
  from assms(2) obtain t where t: "v = CHR 0x22 # t"
    by (auto simp: startsWith_def prefix_def)
  from assms(3) obtain u where u: "v = u @ [CHR 0x22]"
    by (auto simp: endsWith_def suffix_def)
  from assms(1) t have "t \<noteq> []" by auto
  with t u have "u \<noteq> []" by auto
  then obtain m where "u = CHR 0x22 # m"
    using t u by (cases u) auto
  with u show ?thesis by auto
qed

lemma stripQuotes_unquoted:
  "\<not> (1 < length v \<and> startsWith v [CHR 0x22] \<and> endsWith v [CHR 0x22]) \<Longrightarrow> stripQuotes v = v"
  unfolding stripQuotes_def by (simp only: if_False)

lemma scanLine_continue:
  assumes "scanLine l st = (st', True)" and "\<not> allAssigned st"
  shows "\<not> allAssigned st'"
proof (cases "CHR ''='' \<in> set l")
  case True
  with assms(1) show ?thesis by (auto simp: scanLine_equals Let_def)
next
  case False
  with assms show ?thesis by (simp add: scanLine_no_equals)
qed

lemma scanLines_append:
  "\<not> allAssigned st \<Longrightarrow> allAssigned (scanLines xs st)
     \<Longrightarrow> scanLines (xs @ ys) st = scanLines xs st"
proof (induction xs arbitrary: st)
  case Nil
  then show ?case by simp
next
  case (Cons l xs)
  obtain st' continue where s: "scanLine l st = (st', continue)"
    by (cases "scanLine l st")
  show ?case
  proof (cases continue)
    case True
    from s True have "scanLine l st = (st', True)" by simp
    then have "\<not> allAssigned st'"
      using Cons.prems(1) by (rule scanLine_continue)
    moreover from Cons.prems(2) s True have "allAssigned (scanLines xs st')" by simp
    ultimately have "scanLines (xs @ ys) st' = scanLines xs st'"
      by (rule Cons.IH)
    with s True show ?thesis by simp
  next
    case False
    with s show ?thesis by simp
  qed
qed

text \<open>
  Claim C4. The parser returns a distribution for every input: the model is a total
  function, by structural recursion over the lines and a terminating \<open>split\<close>. For
  \<open>ID=ubuntu\<close>, \<open>VERSION_ID="16.04"\<close> on two lines ended by a line feed, with the line
  feed as separator, it returns the name \<open>ubuntu\<close>, the version \<open>16.04\<close> and no \<open>idLike\<close>.
  For the empty string it returns \<open>unknown\<close>, \<open>unknown\<close> and no \<open>idLike\<close>, with any
  separator. For every input and separator the lines without an \<open>=\<close> are skipped: the
  result is the one of the lines that hold an \<open>=\<close>.
\<close>

theorem FromReleaseInfo_total:
  "FromReleaseInfo
      (''ID=ubuntu'' @ [CHR 0x0A] @ ''VERSION_ID='' @ [CHR 0x22] @ ''16.04''
         @ [CHR 0x22, CHR 0x0A]) [CHR 0x0A]
     = \<lparr>name = ''ubuntu'', version = ''16.04'', idLike = None\<rparr>
   \<and> FromReleaseInfo [] eol = \<lparr>name = ''unknown'', version = ''unknown'', idLike = None\<rparr>
   \<and> FromReleaseInfo releaseInfo eol
       = FromLines (filter (\<lambda>l. CHR ''='' \<in> set l) (split_str releaseInfo eol))"
proof (intro conjI)
  show "FromReleaseInfo
      (''ID=ubuntu'' @ [CHR 0x0A] @ ''VERSION_ID='' @ [CHR 0x22] @ ''16.04''
         @ [CHR 0x22, CHR 0x0A]) [CHR 0x0A]
     = \<lparr>name = ''ubuntu'', version = ''16.04'', idLike = None\<rparr>"
    by code_simp
  show "FromReleaseInfo [] eol = \<lparr>name = ''unknown'', version = ''unknown'', idLike = None\<rparr>"
    by (simp add: FromReleaseInfo_def FromLines_def split_str_def scanLine_no_equals
          unknown_def)
  show "FromReleaseInfo releaseInfo eol
       = FromLines (filter (\<lambda>l. CHR ''='' \<in> set l) (split_str releaseInfo eol))"
    by (simp add: FromReleaseInfo_def FromLines_def scanLines_filter)
qed

text \<open>
  Claim C5. The value after the \<open>=\<close> loses exactly one double quote at each end, its
  inner text kept as it is, if and only if it is longer than one character and both
  starts and ends with a double quote; otherwise it is unchanged, and so is the value
  that is one double quote. This stripped value is what a line with an \<open>=\<close> assigns:
  the key is the text before the first \<open>=\<close> of the trimmed line and the value is
  the stripped rest.
\<close>

theorem stripQuotes_matching_pair:
  "((v = CHR 0x22 # stripQuotes v @ [CHR 0x22])
       = (1 < length v \<and> startsWith v [CHR 0x22] \<and> endsWith v [CHR 0x22]))
   \<and> ((stripQuotes v = v)
       = (\<not> (1 < length v \<and> startsWith v [CHR 0x22] \<and> endsWith v [CHR 0x22])))
   \<and> stripQuotes [CHR 0x22] = [CHR 0x22]
   \<and> scanLine l st =
       (if CHR ''='' \<in> set l then
          (let line = trim l;
               k = takeWhile (\<lambda>c. c \<noteq> CHR ''='') line;
               w = stripQuotes (tl (dropWhile (\<lambda>c. c \<noteq> CHR ''='') line));
               st' = assignKey k w st
           in (st', \<not> allAssigned st'))
        else (st, True))"
proof -
  let ?c = "1 < length v \<and> startsWith v [CHR 0x22] \<and> endsWith v [CHR 0x22]"
  have a: "(v = CHR 0x22 # stripQuotes v @ [CHR 0x22]) = ?c"
  proof (cases ?c)
    case True
    then obtain m where "v = CHR 0x22 # m @ [CHR 0x22]"
      using quoted_shape by blast
    with True show ?thesis by (simp add: stripQuotes_quoted)
  next
    case False
    then have "stripQuotes v = v" by (rule stripQuotes_unquoted)
    moreover have "length v \<noteq> length (CHR 0x22 # v @ [CHR 0x22])" by simp
    then have "v \<noteq> CHR 0x22 # v @ [CHR 0x22]" by metis
    ultimately show ?thesis using False by simp
  qed
  have b: "(stripQuotes v = v) = (\<not> ?c)"
  proof (cases ?c)
    case True
    then obtain m where m: "v = CHR 0x22 # m @ [CHR 0x22]"
      using quoted_shape by blast
    then have "length (stripQuotes v) \<noteq> length v"
      by (simp add: stripQuotes_quoted)
    then have "stripQuotes v \<noteq> v" by metis
    with True show ?thesis by simp
  next
    case False
    then show ?thesis by (simp add: stripQuotes_unquoted)
  qed
  have c: "stripQuotes [CHR 0x22] = [CHR 0x22]"
    by (simp add: stripQuotes_def)
  have d: "scanLine l st =
       (if CHR ''='' \<in> set l then
          (let line = trim l;
               k = takeWhile (\<lambda>c. c \<noteq> CHR ''='') line;
               w = stripQuotes (tl (dropWhile (\<lambda>c. c \<noteq> CHR ''='') line));
               st' = assignKey k w st
           in (st', \<not> allAssigned st'))
        else (st, True))"
    by (simp add: scanLine_equals scanLine_no_equals)
  from a b c d show ?thesis by (intro conjI)
qed

text \<open>
  Claim C6. Once the name is not \<open>unknown\<close>, the version is not \<open>unknown\<close> and the key
  \<open>ID_LIKE\<close> has been seen, the scan stops: when the lines \<open>xs\<close> alone give all three,
  any lines \<open>ys\<close> after them change nothing; and a key/value line that completes the
  three ends the loop with the state it has reached.
\<close>

theorem FromLines_early_exit:
  "(allAssigned (FromLines xs) \<longrightarrow> FromLines (xs @ ys) = FromLines xs)
   \<and> (allAssigned (fst (scanLine l st)) \<and> CHR ''='' \<in> set l
        \<longrightarrow> scanLines (l # ls) st = fst (scanLine l st))"
proof (intro conjI impI)
  assume "allAssigned (FromLines xs)"
  moreover have "\<not> allAssigned \<lparr>name = unknown, version = unknown, idLike = None\<rparr>"
    by (simp add: allAssigned_def)
  ultimately show "FromLines (xs @ ys) = FromLines xs"
    unfolding FromLines_def by (simp add: scanLines_append)
next
  assume a: "allAssigned (fst (scanLine l st)) \<and> CHR ''='' \<in> set l"
  then have e: "CHR ''='' \<in> set l" by simp
  obtain st' continue where s: "scanLine l st = (st', continue)"
    by (cases "scanLine l st")
  with a have "allAssigned st'" by simp
  moreover from s have "continue = (\<not> allAssigned st')"
    by (auto simp: scanLine_equals [OF e] Let_def)
  ultimately show "scanLines (l # ls) st = fst (scanLine l st)"
    using s by simp
qed

text \<open>
  Claim C6 at concrete lines: after \<open>ID=arch\<close>, \<open>VERSION_ID=1\<close> and \<open>ID_LIKE=debian\<close> the
  later lines \<open>ID=other\<close>, \<open>VERSION_ID=2\<close> and \<open>ID_LIKE=suse\<close> are not read.
\<close>

theorem FromLines_early_exit_witness:
  "(allAssigned (FromLines [''ID=arch'', ''VERSION_ID=1'', ''ID_LIKE=debian''])
    \<and> FromLines ([''ID=arch'', ''VERSION_ID=1'', ''ID_LIKE=debian'']
                   @ [''ID=other'', ''VERSION_ID=2'', ''ID_LIKE=suse''])
       = \<lparr>name = ''arch'', version = ''1'', idLike = Some [''debian'']\<rparr>)
   \<and> (allAssigned (fst (scanLine ''ID_LIKE=debian''
                         \<lparr>name = ''arch'', version = ''1'', idLike = None\<rparr>))
      \<and> CHR ''='' \<in> set ''ID_LIKE=debian''
      \<and> scanLines [''ID_LIKE=debian'', ''ID=other'']
           \<lparr>name = ''arch'', version = ''1'', idLike = None\<rparr>
         = \<lparr>name = ''arch'', version = ''1'', idLike = Some [''debian'']\<rparr>)"
proof -
  have f: "FromLines [''ID=arch'', ''VERSION_ID=1'', ''ID_LIKE=debian'']
            = \<lparr>name = ''arch'', version = ''1'', idLike = Some [''debian'']\<rparr>"
    by code_simp
  have h1: "allAssigned (FromLines [''ID=arch'', ''VERSION_ID=1'', ''ID_LIKE=debian''])"
    by code_simp
  have g: "fst (scanLine ''ID_LIKE=debian'' \<lparr>name = ''arch'', version = ''1'', idLike = None\<rparr>)
            = \<lparr>name = ''arch'', version = ''1'', idLike = Some [''debian'']\<rparr>"
    by code_simp
  have h2: "allAssigned (fst (scanLine ''ID_LIKE=debian''
                         \<lparr>name = ''arch'', version = ''1'', idLike = None\<rparr>))
      \<and> CHR ''='' \<in> set ''ID_LIKE=debian''"
    by code_simp
  show ?thesis
    using f g h1 h2
      FromLines_early_exit [of "[''ID=arch'', ''VERSION_ID=1'', ''ID_LIKE=debian'']"
             "[''ID=other'', ''VERSION_ID=2'', ''ID_LIKE=suse'']"
             "''ID_LIKE=debian''" "\<lparr>name = ''arch'', version = ''1'', idLike = None\<rparr>"
             "[''ID=other'']"]
    by simp
qed

section \<open>Facts about runtime-id resolution\<close>

lemma applyFallback_real:
  "r \<noteq> unknown_distribution \<Longrightarrow> r \<noteq> unknown_version \<Longrightarrow> applyFallback r fb = Inr r"
  by (simp add: applyFallback_def split: option.splits)

lemma linuxRuntimeId_exact:
  assumes "getExactRuntimeId (name d) (version d) \<noteq> unknown_distribution"
    and "getExactRuntimeId (name d) (version d) \<noteq> unknown_version"
  shows "linuxRuntimeId d fb = Inr (getExactRuntimeId (name d) (version d))"
  using assms by (simp add: linuxRuntimeId_def applyFallback_real)

lemma getRuntimeId_exact:
  assumes "getExactRuntimeId (name d) (version d) \<noteq> unknown_distribution"
    and "getExactRuntimeId (name d) (version d) \<noteq> unknown_version"
  shows "getRuntimeId ''linux'' (Some ''x86_64'') (Some d) fb
           = Inr (getExactRuntimeId (name d) (version d))"
  using assms by (simp add: getRuntimeId_def linuxRuntimeId_exact)

lemma exact_ubuntu_16_04: "getExactRuntimeId ''ubuntu'' ''16.04'' = ''ubuntu.16.04-x64''"
  by (simp add: getExactRuntimeId_def ubuntu_16_04_def)

lemma exact_linuxmint_18_1: "getExactRuntimeId ''linuxmint'' ''18.1'' = ''ubuntu.16.04-x64''"
  by (simp add: getExactRuntimeId_def ubuntu_16_04_def startsWith_def)

lemma exact_ubuntu_14_04: "getExactRuntimeId ''ubuntu'' ''14.04'' = ''ubuntu.14.04-x64''"
  by (simp add: getExactRuntimeId_def ubuntu_14_04_def)

lemma helper_of_exact:
  "getExactRuntimeId n v \<noteq> unknown_distribution
     \<Longrightarrow> getRuntimeIdHelper n v = getExactRuntimeId n v"
  by (simp add: getRuntimeIdHelper_def)

lemma helper_unknown_exact_unknown:
  "getRuntimeIdHelper n v = unknown_distribution
     \<Longrightarrow> getExactRuntimeId n v = unknown_distribution"
  by (cases "getExactRuntimeId n v = unknown_distribution")
     (simp_all add: getRuntimeIdHelper_def)

text \<open>
  A name that is no \<open>case\<close> label of either \<open>switch\<close> reaches both \<open>default\<close> branches,
  whatever the version.
\<close>

lemma helper_unknown_name:
  assumes "n \<notin> {''ubuntu'', ''linuxmint'', ''centos'', ''ol'', ''fedora'', ''opensuse'',
           ''rhel'', ''debian'', ''Zorin OS'', ''zorin'', ''elementary'', ''elementary OS'',
           ''galliumos''}"
  shows "getRuntimeIdHelper n v = unknown_distribution"
proof -
  have "getExactRuntimeId n v = unknown_distribution"
    using assms by (simp add: getExactRuntimeId_def)
  then show ?thesis
    using assms by (simp add: getRuntimeIdHelper_def)
qed

lemma getRuntimeId_not_sentinel:
  "getRuntimeId p a d fb \<noteq> Inr unknown_distribution
   \<and> getRuntimeId p a d fb \<noteq> Inr unknown_version"
  by (simp add: getRuntimeId_def unknown_distribution_def unknown_version_def
           split: option.splits sum.splits)

text \<open>
  A fallback object that returns the string \<open>unknown_distribution\<close> changes nothing: the
  fuzzy lookup runs as it would without the object.
\<close>

lemma linuxRuntimeId_fallback_unknown_distribution:
  "linuxRuntimeId d (Some (Fallback (Inr (Some unknown_distribution)))) = linuxRuntimeId d None"
proof (cases "getExactRuntimeId (name d) (version d) = unknown_distribution")
  case True
  then show ?thesis
    by (simp add: linuxRuntimeId_def applyFallback_def unknown_distribution_def)
next
  case False
  then show ?thesis
    by (simp add: linuxRuntimeId_def applyFallback_def helper_of_exact Let_def)
qed

text \<open>
  When the lookups without a fallback object end in a sentinel, the exact lookup
  already gave one: a real id of the exact lookup is never replaced.
\<close>

lemma chain_sentinel_exact_sentinel:
  assumes "linuxRuntimeId d None = Inr r"
    and "r = unknown_distribution \<or> r = unknown_version"
  shows "getExactRuntimeId (name d) (version d) = unknown_distribution
         \<or> getExactRuntimeId (name d) (version d) = unknown_version"
proof (rule ccontr)
  assume "\<not> ?thesis"
  then have "linuxRuntimeId d None = Inr (getExactRuntimeId (name d) (version d))"
    by (simp add: linuxRuntimeId_exact)
  with assms \<open>\<not> ?thesis\<close> show False by auto
qed

lemma fallback_adopted:
  assumes "e = unknown_distribution \<or> e = unknown_version"
    and "s \<noteq> []"
  shows "applyFallback e (Some (Fallback (Inr (Some s)))) = Inr s"
  using assms by (auto simp: applyFallback_def)

lemma galliumos_2_0:
  "getRuntimeId ''linux'' (Some ''x86_64'')
     (Some \<lparr>name = ''galliumos'', version = ''2.0'', idLike = None\<rparr>) None
   = Inr ''ubuntu.16.04-x64''"
  by code_simp

text \<open>
  Claim C7. On \<open>win32\<close> the runtime id is \<open>win7-x86\<close> for the architecture \<open>x86\<close>,
  \<open>win7-x64\<close> for \<open>x86_64\<close>, and resolution fails with the unsupported-architecture error
  for every other architecture (a \<open>null\<close> one included). On \<open>darwin\<close> it is
  \<open>osx.10.11-x64\<close> for \<open>x86_64\<close> and fails for every other architecture. Neither the
  distribution nor the fallback object matters.
\<close>

theorem getRuntimeId_windows_macos:
  "getRuntimeId ''win32'' a d fb =
     (if a = Some ''x86'' then Inr ''win7-x86''
      else if a = Some ''x86_64'' then Inr ''win7-x64''
      else Inl (UnsupportedWindowsArchitecture a))
   \<and> getRuntimeId ''darwin'' a d fb =
     (if a = Some ''x86_64'' then Inr ''osx.10.11-x64''
      else Inl (UnsupportedMacOSArchitecture a))"
  by (simp add: getRuntimeId_def)

text \<open>
  Claim C8. On \<open>linux\<close> with \<open>x86_64\<close>, the distribution \<open>ubuntu\<close> \<open>16.04\<close> resolves to
  \<open>ubuntu.16.04-x64\<close>, and \<open>linuxmint\<close> \<open>18.1\<close> resolves to the same runtime id,
  whatever \<open>idLike\<close> holds and whatever fallback object is given.
\<close>

theorem getRuntimeId_ubuntu_linuxmint:
  "getRuntimeId ''linux'' (Some ''x86_64'')
      (Some \<lparr>name = ''ubuntu'', version = ''16.04'', idLike = il\<rparr>) fb
     = Inr ''ubuntu.16.04-x64''
   \<and> getRuntimeId ''linux'' (Some ''x86_64'')
      (Some \<lparr>name = ''linuxmint'', version = ''18.1'', idLike = il'\<rparr>) fb'
     = getRuntimeId ''linux'' (Some ''x86_64'')
      (Some \<lparr>name = ''ubuntu'', version = ''16.04'', idLike = il\<rparr>) fb"
  by (simp add: getRuntimeId_exact exact_ubuntu_16_04 exact_linuxmint_18_1
        LinuxRuntimeId_defs)

text \<open>
  Claim C10. The constructor of \<open>PlatformInformation\<close> returns an object for every
  platform, architecture, distribution and fallback object: an error of \<open>getRuntimeId\<close>
  becomes an absent \<open>runtimeId\<close>. This holds for an unsupported platform such as
  \<open>freebsd\<close> and for a \<open>null\<close> distribution on \<open>linux\<close>.
\<close>

theorem newPlatformInformation_total:
  "newPlatformInformation p a d fb =
     Inr \<lparr>platform = p, architecture = a, distribution = d,
          runtimeId = (case getRuntimeId p a d fb of Inl err \<Rightarrow> None | Inr r \<Rightarrow> Some r)\<rparr>
   \<and> newPlatformInformation ''freebsd'' a d fb =
     Inr \<lparr>platform = ''freebsd'', architecture = a, distribution = d, runtimeId = None\<rparr>
   \<and> newPlatformInformation ''linux'' a None fb =
     Inr \<lparr>platform = ''linux'', architecture = a, distribution = None, runtimeId = None\<rparr>"
  by (simp add: newPlatformInformation_def try_catch_def getRuntimeId_def split: sum.splits)

text \<open>
  Claim C1, as the specification states it, fails: on \<open>linux\<close> with \<open>x86_64\<close> the
  distribution \<open>galliumos\<close> \<open>2.0\<close> without \<open>idLike\<close> does not resolve to
  \<open>ubuntu.14.04-x64\<close>.
\<close>

theorem getRuntimeId_galliumos_not_ubuntu_14_04:
  "getRuntimeId ''linux'' (Some ''x86_64'')
     (Some \<lparr>name = ''galliumos'', version = ''2.0'', idLike = None\<rparr>) None
   \<noteq> Inr ''ubuntu.14.04-x64''"
  by (simp add: galliumos_2_0)

text \<open>
  Claim C1, amended. On \<open>linux\<close> with \<open>x86_64\<close> and no fallback object, \<open>galliumos\<close>
  \<open>2.0\<close> without \<open>idLike\<close> resolves to \<open>ubuntu.16.04-x64\<close>; and every name that is in
  neither the exact nor the fuzzy table, with \<open>idLike = [ubuntu]\<close> and version \<open>14.04\<close>,
  resolves to \<open>ubuntu.14.04-x64\<close> through its ancestor.
\<close>

theorem getRuntimeId_galliumos_idLike_ubuntu:
  "getRuntimeId ''linux'' (Some ''x86_64'')
     (Some \<lparr>name = ''galliumos'', version = ''2.0'', idLike = None\<rparr>) None
   = Inr ''ubuntu.16.04-x64''
   \<and> (n \<notin> {''ubuntu'', ''linuxmint'', ''centos'', ''ol'', ''fedora'', ''opensuse'', ''rhel'',
             ''debian'', ''Zorin OS'', ''zorin'', ''elementary'', ''elementary OS'',
             ''galliumos''} \<longrightarrow>
      getRuntimeId ''linux'' (Some ''x86_64'')
        (Some \<lparr>name = n, version = ''14.04'', idLike = Some [''ubuntu'']\<rparr>) None
      = Inr ''ubuntu.14.04-x64'')"
proof (intro conjI impI)
  show "getRuntimeId ''linux'' (Some ''x86_64'')
     (Some \<lparr>name = ''galliumos'', version = ''2.0'', idLike = None\<rparr>) None
   = Inr ''ubuntu.16.04-x64''"
    by (rule galliumos_2_0)
next
  assume "n \<notin> {''ubuntu'', ''linuxmint'', ''centos'', ''ol'', ''fedora'', ''opensuse'', ''rhel'',
             ''debian'', ''Zorin OS'', ''zorin'', ''elementary'', ''elementary OS'',
             ''galliumos''}"
  then have h: "getRuntimeIdHelper n ''14.04'' = unknown_distribution"
    by (rule helper_unknown_name)
  have e: "getExactRuntimeId n ''14.04'' = unknown_distribution"
    using h by (rule helper_unknown_exact_unknown)
  have a: "getRuntimeIdHelper ''ubuntu'' ''14.04'' = ''ubuntu.14.04-x64''"
    by (simp add: getRuntimeIdHelper_def exact_ubuntu_14_04 unknown_distribution_def)
  have "linuxRuntimeId \<lparr>name = n, version = ''14.04'', idLike = Some [''ubuntu'']\<rparr> None
          = Inr ''ubuntu.14.04-x64''"
    by (simp add: linuxRuntimeId_def applyFallback_def e h a)
       (simp add: unknown_distribution_def)
  then show "getRuntimeId ''linux'' (Some ''x86_64'')
        (Some \<lparr>name = n, version = ''14.04'', idLike = Some [''ubuntu'']\<rparr>) None
      = Inr ''ubuntu.14.04-x64''"
    by (simp add: getRuntimeId_def unknown_distribution_def unknown_version_def)
qed

text \<open>
  Claim C1, amended, at the unknown name \<open>mystery\<close>: the name is in no table and the
  ancestor \<open>ubuntu\<close> gives the runtime id.
\<close>

theorem getRuntimeId_galliumos_idLike_ubuntu_witness:
  "''mystery'' \<notin> {''ubuntu'', ''linuxmint'', ''centos'', ''ol'', ''fedora'', ''opensuse'',
       ''rhel'', ''debian'', ''Zorin OS'', ''zorin'', ''elementary'', ''elementary OS'',
       ''galliumos''}
   \<and> getRuntimeId ''linux'' (Some ''x86_64'')
        (Some \<lparr>name = ''mystery'', version = ''14.04'', idLike = Some [''ubuntu'']\<rparr>) None
      = Inr ''ubuntu.14.04-x64''"
proof -
  have h: "''mystery'' \<notin> {''ubuntu'', ''linuxmint'', ''centos'', ''ol'', ''fedora'',
       ''opensuse'', ''rhel'', ''debian'', ''Zorin OS'', ''zorin'', ''elementary'',
       ''elementary OS'', ''galliumos''}"
    by simp
  show ?thesis
    using h getRuntimeId_galliumos_idLike_ubuntu [of "''mystery''"] by simp
qed

text \<open>
  Claim C2, as the specification states it, fails: for the unknown distribution
  \<open>mystery\<close> \<open>1.0\<close> the lookups alone end in \<open>unknown_distribution\<close>, and a fallback
  object that returns the non-empty string \<open>unknown_version\<close> does not make resolution
  return that string. The final test rejects it and resolution fails.
\<close>

theorem getRuntimeId_fallback_sentinel_rejected:
  "linuxRuntimeId \<lparr>name = ''mystery'', version = ''1.0'', idLike = None\<rparr> None
     = Inr ''unknown_distribution''
   \<and> ''unknown_version'' \<noteq> []
   \<and> getRuntimeId ''linux'' (Some ''x86_64'')
       (Some \<lparr>name = ''mystery'', version = ''1.0'', idLike = None\<rparr>)
       (Some (Fallback (Inr (Some ''unknown_version''))))
     = Inl (UnsupportedLinuxDistro ''mystery'' ''1.0'' (Some ''x86_64''))"
  by code_simp

text \<open>
  Claim C2, amended. On \<open>linux\<close> with \<open>x86_64\<close>, when the exact, fuzzy and ancestor
  lookups alone end in \<open>unknown_distribution\<close> or \<open>unknown_version\<close> and the fallback
  object returns a non-empty string that is neither of these two sentinels, resolution
  returns exactly that string. And when the exact lookup gives a real runtime id,
  resolution returns it whatever the fallback object does, even one that raises: the
  object is not consulted.
\<close>

theorem getRuntimeId_fallback_adopted:
  "(linuxRuntimeId d None = Inr r \<and> (r = unknown_distribution \<or> r = unknown_version)
      \<and> s \<noteq> [] \<and> s \<noteq> unknown_distribution \<and> s \<noteq> unknown_version
    \<longrightarrow> getRuntimeId ''linux'' (Some ''x86_64'') (Some d) (Some (Fallback (Inr (Some s))))
          = Inr s)
   \<and> (getExactRuntimeId (name d) (version d) \<noteq> unknown_distribution
      \<and> getExactRuntimeId (name d) (version d) \<noteq> unknown_version
    \<longrightarrow> getRuntimeId ''linux'' (Some ''x86_64'') (Some d) fb
          = Inr (getExactRuntimeId (name d) (version d)))"
proof (intro conjI impI)
  assume h: "linuxRuntimeId d None = Inr r \<and> (r = unknown_distribution \<or> r = unknown_version)
      \<and> s \<noteq> [] \<and> s \<noteq> unknown_distribution \<and> s \<noteq> unknown_version"
  then have "getExactRuntimeId (name d) (version d) = unknown_distribution
         \<or> getExactRuntimeId (name d) (version d) = unknown_version"
    using chain_sentinel_exact_sentinel by blast
  with h have "applyFallback (getExactRuntimeId (name d) (version d))
                 (Some (Fallback (Inr (Some s)))) = Inr s"
    by (simp add: fallback_adopted)
  with h have "linuxRuntimeId d (Some (Fallback (Inr (Some s)))) = Inr s"
    by (simp add: linuxRuntimeId_def)
  with h show "getRuntimeId ''linux'' (Some ''x86_64'') (Some d)
                 (Some (Fallback (Inr (Some s)))) = Inr s"
    by (simp add: getRuntimeId_def)
next
  assume "getExactRuntimeId (name d) (version d) \<noteq> unknown_distribution
      \<and> getExactRuntimeId (name d) (version d) \<noteq> unknown_version"
  then show "getRuntimeId ''linux'' (Some ''x86_64'') (Some d) fb
          = Inr (getExactRuntimeId (name d) (version d))"
    by (simp add: getRuntimeId_exact)
qed

text \<open>
  Claim C2, amended, at concrete inputs: \<open>mystery\<close> \<open>1.0\<close> with a fallback object that
  returns \<open>custom-rid\<close>, and \<open>debian\<close> \<open>8\<close> with a fallback object that raises.
\<close>

theorem getRuntimeId_fallback_adopted_witness:
  "(linuxRuntimeId \<lparr>name = ''mystery'', version = ''1.0'', idLike = None\<rparr> None
      = Inr unknown_distribution
    \<and> ''custom-rid'' \<noteq> [] \<and> ''custom-rid'' \<noteq> unknown_distribution
    \<and> ''custom-rid'' \<noteq> unknown_version
    \<and> getRuntimeId ''linux'' (Some ''x86_64'')
        (Some \<lparr>name = ''mystery'', version = ''1.0'', idLike = None\<rparr>)
        (Some (Fallback (Inr (Some ''custom-rid'')))) = Inr ''custom-rid'')
   \<and> (getExactRuntimeId ''debian'' ''8'' \<noteq> unknown_distribution
    \<and> getExactRuntimeId ''debian'' ''8'' \<noteq> unknown_version
    \<and> getRuntimeId ''linux'' (Some ''x86_64'')
        (Some \<lparr>name = ''debian'', version = ''8'', idLike = None\<rparr>)
        (Some (Fallback (Inl FallbackError))) = Inr ''debian.8-x64'')"
proof -
  have h1: "linuxRuntimeId \<lparr>name = ''mystery'', version = ''1.0'', idLike = None\<rparr> None
      = Inr unknown_distribution"
    by code_simp
  have h2: "''custom-rid'' \<noteq> [] \<and> ''custom-rid'' \<noteq> unknown_distribution
    \<and> ''custom-rid'' \<noteq> unknown_version"
    by (simp add: LinuxRuntimeId_defs)
  have h3: "getExactRuntimeId ''debian'' ''8'' = ''debian.8-x64''"
    by code_simp
  have h4: "getExactRuntimeId ''debian'' ''8'' \<noteq> unknown_distribution
    \<and> getExactRuntimeId ''debian'' ''8'' \<noteq> unknown_version"
    by (simp add: h3 LinuxRuntimeId_defs)
  show ?thesis
    using h1 h2 h3 h4
      getRuntimeId_fallback_adopted
        [of "\<lparr>name = ''mystery'', version = ''1.0'', idLike = None\<rparr>"
            unknown_distribution "''custom-rid''"]
      getRuntimeId_fallback_adopted
        [of "\<lparr>name = ''debian'', version = ''8'', idLike = None\<rparr>" _ _
            "Some (Fallback (Inl FallbackError))"]
    by simp
qed

text \<open>
  Claim C3. On \<open>linux\<close> with \<open>x86_64\<close> and no fallback object, when the exact, fuzzy and
  ancestor lookups end in \<open>unknown_distribution\<close> or \<open>unknown_version\<close>, the constructor
  still returns an object: its \<open>runtimeId\<close> is absent, and its platform, architecture and
  distribution are the ones it was given.
\<close>

theorem newPlatformInformation_unresolved_linux:
  assumes "linuxRuntimeId d None = Inr r"
    and "r = unknown_distribution \<or> r = unknown_version"
  shows "newPlatformInformation ''linux'' (Some ''x86_64'') (Some d) None =
           Inr \<lparr>platform = ''linux'', architecture = Some ''x86_64'',
                distribution = Some d, runtimeId = None\<rparr>"
  using assms by (auto simp: newPlatformInformation_def try_catch_def getRuntimeId_def)

text \<open>
  Claim C3 at the distribution \<open>mystery\<close> \<open>1.0\<close> with the equally unknown ancestor
  \<open>enigma\<close>: every lookup ends in \<open>unknown_distribution\<close>.
\<close>

theorem newPlatformInformation_unresolved_linux_witness:
  "linuxRuntimeId \<lparr>name = ''mystery'', version = ''1.0'', idLike = Some [''enigma'']\<rparr> None
     = Inr unknown_distribution
   \<and> newPlatformInformation ''linux'' (Some ''x86_64'')
       (Some \<lparr>name = ''mystery'', version = ''1.0'', idLike = Some [''enigma'']\<rparr>) None =
       Inr \<lparr>platform = ''linux'', architecture = Some ''x86_64'',
            distribution =
              Some \<lparr>name = ''mystery'', version = ''1.0'', idLike = Some [''enigma'']\<rparr>,
            runtimeId = None\<rparr>"
proof -
  have h: "linuxRuntimeId
             \<lparr>name = ''mystery'', version = ''1.0'', idLike = Some [''enigma'']\<rparr> None
           = Inr unknown_distribution"
    by code_simp
  show ?thesis
    using h newPlatformInformation_unresolved_linux [OF h] by simp
qed

text \<open>
  Claim C9. For every platform, architecture, distribution and fallback object the
  constructor returns an object whose \<open>runtimeId\<close> is neither the string
  \<open>unknown_distribution\<close> nor the string \<open>unknown_version\<close>. A fallback object that returns
  \<open>unknown_distribution\<close> itself is passed over: resolution gives what it gives without
  the object.
\<close>

theorem runtimeId_never_sentinel:
  "(\<exists>pi. newPlatformInformation p a d fb = Inr pi
         \<and> runtimeId pi \<noteq> Some unknown_distribution
         \<and> runtimeId pi \<noteq> Some unknown_version)
   \<and> getRuntimeId p a d (Some (Fallback (Inr (Some unknown_distribution))))
       = getRuntimeId p a d None"
proof
  show "\<exists>pi. newPlatformInformation p a d fb = Inr pi
         \<and> runtimeId pi \<noteq> Some unknown_distribution
         \<and> runtimeId pi \<noteq> Some unknown_version"
    using getRuntimeId_not_sentinel [of p a d fb]
    by (cases "getRuntimeId p a d fb")
       (simp_all add: newPlatformInformation_def try_catch_def)
  show "getRuntimeId p a d (Some (Fallback (Inr (Some unknown_distribution))))
       = getRuntimeId p a d None"
    by (simp add: getRuntimeId_def linuxRuntimeId_fallback_unknown_distribution
          split: option.splits)
qed

end
